theory Spec2Isabelle
  imports Main
begin

section \<open>HPCG start-up: resolution of the run parameters (src/init.cpp)\<close>

text \<open>
  \<open>HPCG_Init\<close> fills a scratch array \<open>iparams\<close> of ten C \<open>int\<close>s from the command
  line, possibly from the file \<open>hpcg.dat\<close>, repairs small problem dimensions, possibly
  broadcasts the array from MPI rank 0, and copies the ten slots into the fields of
  \<open>HPCG_Params\<close>. The array is a list of ten integers here. The routine computes
  nothing with the stored values, it only compares and copies them; the one place where
  the width of \<open>int\<close> decides a value is the conversion inside \<open>sscanf\<close>, which stores
  through an \<open>int *\<close>, and there the 32 bits of \<open>int\<close> are written out.
\<close>

subsection \<open>The C library calls of the parser\<close>

text \<open>\<open>isspace\<close> and \<open>isdigit\<close> in the C locale.\<close>

definition isspace :: "char \<Rightarrow> bool" where
  "isspace c = (c \<in> set [CHR '' '', CHR 0x09, CHR 0x0A, CHR 0x0B, CHR 0x0C, CHR 0x0D])"

definition isdigit :: "char \<Rightarrow> bool" where
  "isdigit c = (c \<in> set ''0123456789'')"

definition digit_value :: "char \<Rightarrow> int" where
  "digit_value c = int (of_char c) - 48"

definition decimal_value :: "string \<Rightarrow> int" where
  "decimal_value ds = foldl (\<lambda>acc c. 10 * acc + digit_value c) 0 ds"

text \<open>
  The conversion of a signed decimal numeral to \<open>int\<close> as the C library performs it for
  \<open>%d\<close>: \<open>strtol\<close> yields a 64-bit \<open>long\<close>, \<open>LONG_MAX\<close> or \<open>LONG_MIN\<close> when the numeral
  lies beyond them, and the assignment to the \<open>int\<close> keeps the low 32 bits as a two's
  complement value. A numeral that fits into \<open>int\<close> is stored as it is, one that fits
  into \<open>long\<close> is truncated to 32 bits.
\<close>

definition strtol_long :: "int \<Rightarrow> int" where
  "strtol_long n = max (- (2 ^ 63)) (min (2 ^ 63 - 1) n)"

definition to_int32 :: "int \<Rightarrow> int" where
  "to_int32 n = (n + 2 ^ 31) mod 2 ^ 32 - 2 ^ 31"

text \<open>
  \<open>sscanf(s, "%d", p)\<close>: white space is skipped, then an optional sign and the longest
  run of decimal digits are read. With at least one digit the converted value is stored
  through \<open>p\<close> and the call returns 1 (\<open>Some v\<close>); otherwise nothing is stored and the
  call returns 0 or \<open>EOF\<close> (\<open>None\<close>). The caller only tests the return value against 1.
\<close>

definition sscanf_d :: "string \<Rightarrow> int option" where
  "sscanf_d s =
     (let t = dropWhile isspace s;
          neg = (case t of [] \<Rightarrow> False | c # r \<Rightarrow> c = CHR ''-'');
          u = (case t of [] \<Rightarrow> t
               | c # r \<Rightarrow> if c = CHR ''-'' \<or> c = CHR ''+'' then r else t);
          ds = takeWhile isdigit u
      in if ds = [] then None
         else Some (to_int32 (strtol_long
                (if neg then - decimal_value ds else decimal_value ds))))"

definition strlen :: "string \<Rightarrow> nat" where
  "strlen s = length s"

text \<open>
  \<open>startswith\<close> returns 1 when \<open>strncmp(s, prefix, strlen(prefix))\<close> is 0, that is when
  the first \<open>strlen(prefix)\<close> characters of \<open>s\<close> exist and are those of the prefix, and
  0 otherwise; the C truth value is a \<open>bool\<close> here.
\<close>

definition startswith :: "string \<Rightarrow> string \<Rightarrow> bool" where
  "startswith s pre = (let n = strlen pre in take n s = pre)"

subsection \<open>The parameter array and the command line\<close>

definition cparams :: "string list" where
  "cparams = [''--nx='', ''--ny='', ''--nz='', ''--rt='', ''--pz='',
              ''--zl='', ''--zu='', ''--npx='', ''--npy='', ''--npz='']"

definition nparams :: nat where
  "nparams = length cparams"

text \<open>
  \<open>argv\<close> is the whole argument vector, \<open>argv ! 0\<close> being the program name, and
  \<open>argc\<close> is its length.

  One round of the first loop (line 85):
  \<open>if (argc <= i+1 || sscanf(argv[i+1], "%d", iparams+i) != 1 || iparams[i] < 10) iparams[i] = 0;\<close>
\<close>

definition positional_arg :: "string list \<Rightarrow> nat \<Rightarrow> int list \<Rightarrow> int list" where
  "positional_arg argv i iparams =
     (if length argv \<le> i + 1 then iparams[i := 0]
      else case sscanf_d (argv ! (i + 1)) of
             None \<Rightarrow> iparams[i := 0]
           | Some v \<Rightarrow>
               (let stored = iparams[i := v]
                in if stored ! i < 10 then stored[i := 0] else stored))"

text \<open>The loop \<open>for (i = 0; i < nparams; ++i)\<close> around it (line 84).\<close>

definition positional_args :: "string list \<Rightarrow> int list \<Rightarrow> int list" where
  "positional_args argv iparams = fold (positional_arg argv) [0..<nparams] iparams"

text \<open>
  The body of the second loop nest (lines 90 to 92), for the argument \<open>a = argv[i]\<close> and
  the prefix number \<open>j\<close>.
\<close>

definition prefixed_arg :: "string \<Rightarrow> nat \<Rightarrow> int list \<Rightarrow> int list" where
  "prefixed_arg a j iparams =
     (if startswith a (cparams ! j)
      then (case sscanf_d (drop (strlen (cparams ! j)) a) of
              None \<Rightarrow> iparams[j := 0]
            | Some v \<Rightarrow> iparams[j := v])
      else iparams)"

text \<open>The inner loop \<open>for (j = 0; j < nparams; ++j)\<close> (line 89).\<close>

definition scan_arg :: "string \<Rightarrow> int list \<Rightarrow> int list" where
  "scan_arg a iparams = fold (prefixed_arg a) [0..<nparams] iparams"

text \<open>
  The outer loop \<open>for (i = 1; i <= argc && argv[i]; ++i)\<close> (line 88) visits
  \<open>argv[1]\<close> to \<open>argv[argc - 1]\<close>, since \<open>argv[argc]\<close> is the null pointer.
\<close>

definition prefixed_args :: "string list \<Rightarrow> int list \<Rightarrow> int list" where
  "prefixed_args argv iparams = fold scan_arg (drop 1 argv) iparams"

text \<open>Lines 78 to 92: allocation, initialisation to 0 and the two passes.\<close>

definition cmdline_iparams :: "string list \<Rightarrow> int list" where
  "cmdline_iparams argv = prefixed_args argv (positional_args argv (replicate nparams 0))"

subsection \<open>Defaults from hpcg.dat\<close>

text \<open>
  What the file reader finds for each of the seven values it can deliver; \<open>None\<close>
  stands for a value that it does not store.
\<close>

record hpcg_dat =
  dat_nx :: "int option"
  dat_ny :: "int option"
  dat_nz :: "int option"
  dat_rt :: "int option"
  dat_npx :: "int option"
  dat_npy :: "int option"
  dat_npz :: "int option"

definition store_opt :: "nat \<Rightarrow> int option \<Rightarrow> int list \<Rightarrow> int list" where
  "store_opt k v mem = (case v of None \<Rightarrow> mem | Some x \<Rightarrow> mem[k := x])"

text \<open>
  Modelled from the spec: \<open>ReadHpcgDat\<close>, declared in ReadHpcgDat.hpp, whose source is
  not among the files of init.cpp. It is called as
  \<open>ReadHpcgDat(iparams, rt, iparams+7)\<close>. Following the specification it delivers up
  to three geometry integers through its first pointer, a runtime integer through its
  second pointer unless that pointer is null, and a process-grid triple through its
  third pointer. The pointers are offsets into the parameter array, the null pointer is
  \<open>None\<close>, and the returned status, which the caller drops, is left out.
\<close>

definition ReadHpcgDat :: "hpcg_dat \<Rightarrow> nat \<Rightarrow> nat option \<Rightarrow> nat \<Rightarrow> int list \<Rightarrow> int list" where
  "ReadHpcgDat f localDimensions secondsPerRun localProcDimensions mem =
     (let m1 = store_opt localDimensions (dat_nx f) mem;
          m2 = store_opt (localDimensions + 1) (dat_ny f) m1;
          m3 = store_opt (localDimensions + 2) (dat_nz f) m2;
          m4 = (case secondsPerRun of None \<Rightarrow> m3 | Some p \<Rightarrow> store_opt p (dat_rt f) m3);
          m5 = store_opt localProcDimensions (dat_npx f) m4;
          m6 = store_opt (localProcDimensions + 1) (dat_npy f) m5
      in store_opt (localProcDimensions + 2) (dat_npz f) m6)"

text \<open>
  Lines 95 and 96: \<open>int * rt = iparams+3; if (iparams[3]) rt = 0;\<close>
\<close>

definition rt_pointer :: "int list \<Rightarrow> nat option" where
  "rt_pointer iparams = (if iparams ! 3 \<noteq> 0 then None else Some 3)"

text \<open>The test of line 97: \<open>! iparams[0] && ! iparams[1] && ! iparams[2]\<close>.\<close>

definition no_geometry :: "int list \<Rightarrow> bool" where
  "no_geometry iparams = (iparams ! 0 = 0 \<and> iparams ! 1 = 0 \<and> iparams ! 2 = 0)"

text \<open>
  Lines 95 to 100. The result is the array and the flag \<open>broadcastParams\<close>, which is
  set exactly when the reader has been called.
\<close>

definition file_defaults :: "hpcg_dat \<Rightarrow> int list \<Rightarrow> int list \<times> bool" where
  "file_defaults f iparams =
     (let rt = rt_pointer iparams
      in if no_geometry iparams then (ReadHpcgDat f 0 rt 7 iparams, True)
         else (iparams, False))"

subsection \<open>Small or unspecified dimensions\<close>

text \<open>
  Lines 107 and 108, for the dimension \<open>i\<close> and the offset \<open>j\<close>:
  \<open>if (iparams[(i+j)%3] > iparams[i]) iparams[i] = iparams[(i+j)%3];\<close>
\<close>

definition raise_to_sibling :: "nat \<Rightarrow> nat \<Rightarrow> int list \<Rightarrow> int list" where
  "raise_to_sibling i j iparams =
     (if iparams ! ((i + j) mod 3) > iparams ! i
      then iparams[i := iparams ! ((i + j) mod 3)]
      else iparams)"

text \<open>The body of the loop over \<open>i\<close> (lines 105 to 110).\<close>

definition normalize_dim :: "nat \<Rightarrow> int list \<Rightarrow> int list" where
  "normalize_dim i iparams =
     (let raised = (if iparams ! i < 16 then fold (raise_to_sibling i) [1, 2] iparams
                    else iparams)
      in if raised ! i < 16 then raised[i := 16] else raised)"

definition normalize_geometry :: "int list \<Rightarrow> int list" where
  "normalize_geometry iparams = fold normalize_dim [0..<3] iparams"

text \<open>
  The rule as the specification words it: a dimension below 16 is replaced with the
  maximum of the other two dimensions, and with 16 if that is still below 16; the
  dimensions are treated in the order 0, 1, 2, each on the array the previous one left.
\<close>

definition spec_fill_dim :: "nat \<Rightarrow> int list \<Rightarrow> int list" where
  "spec_fill_dim i v =
     (if v ! i < 16
      then (let m = max (v ! ((i + 1) mod 3)) (v ! ((i + 2) mod 3))
            in v[i := (if m < 16 then 16 else m)])
      else v)"

definition spec_normalize :: "int list \<Rightarrow> int list" where
  "spec_normalize v = spec_fill_dim 2 (spec_fill_dim 1 (spec_fill_dim 0 v))"

text \<open>Lines 78 to 111, which involve no other process.\<close>

definition local_iparams :: "string list \<Rightarrow> hpcg_dat \<Rightarrow> int list \<times> bool" where
  "local_iparams argv f =
     (let (iparams, broadcastParams) = file_defaults f (cmdline_iparams argv)
      in (normalize_geometry iparams, broadcastParams))"

subsection \<open>The broadcast, the result record and the log stream\<close>

text \<open>
  \<open>MPI_Bcast(buffer, count, MPI_INT, root, MPI_COMM_WORLD)\<close> seen from the process
  \<open>self\<close>: the root keeps its buffer, every other process receives the first \<open>count\<close>
  elements of the buffer the root has sent.
\<close>

definition MPI_Bcast :: "int list \<Rightarrow> int \<Rightarrow> int list \<Rightarrow> nat \<Rightarrow> int \<Rightarrow> int list" where
  "MPI_Bcast sent self buffer count root =
     (if self = root then buffer else take count sent @ drop count buffer)"

text \<open>
  The fields of \<open>HPCG_Params\<close> (hpcg.hpp) that the routine assigns.
\<close>

record HPCG_Params =
  comm_size :: int
  comm_rank :: int
  numThreads :: int
  nx :: int
  ny :: int
  nz :: int
  runningTime :: int
  npx :: int
  npy :: int
  npz :: int
  pz :: int
  zl :: int
  zu :: int

text \<open>The preprocessor symbols that select the code compiled.\<close>

record build =
  HPCG_NO_MPI :: bool
  HPCG_NO_OPENMP :: bool
  HPCG_DEBUG :: bool
  HPCG_DETAILED_DEBUG :: bool
  WIN32 :: bool

record tm =
  tm_year :: int
  tm_mon :: int
  tm_mday :: int
  tm_hour :: int
  tm_min :: int
  tm_sec :: int

text \<open>
  What the process learns from its surroundings: the answers of \<open>MPI_Comm_rank\<close>,
  \<open>MPI_Comm_size\<close> and \<open>omp_get_num_threads\<close>, and the local time.
\<close>

record exec_env =
  mpi_rank :: int
  mpi_size :: int
  omp_threads :: int
  localtime :: tm

datatype io_event = Call_ReadHpcgDat | Call_MPI_Bcast

datatype log_stream = Shares_cout | Opened string

definition NULLDEVICE :: "build \<Rightarrow> string" where
  "NULLDEVICE bld = (if WIN32 bld then ''nul'' else ''/dev/null'')"

fun decimal :: "nat \<Rightarrow> string" where
  "decimal n =
     (if n < 10 then [char_of (48 + n)]
      else decimal (n div 10) @ [char_of (48 + n mod 10)])"

declare decimal.simps [simp del]

text \<open>\<open>%d\<close> and \<open>%0wd\<close> of \<open>sprintf\<close>.\<close>

definition fmt_d :: "int \<Rightarrow> string" where
  "fmt_d n = (if n < 0 then CHR ''-'' # decimal (nat (- n)) else decimal (nat n))"

definition fmt_0d :: "nat \<Rightarrow> int \<Rightarrow> string" where
  "fmt_0d w n =
     (let ds = decimal (nat \<bar>n\<bar>);
          sign = (if n < 0 then ''-'' else '''')
      in sign @ replicate (w - length sign - length ds) CHR ''0'' @ ds)"

definition timestamp :: "tm \<Rightarrow> string" where
  "timestamp t =
     ''hpcg'' @ fmt_0d 4 (1900 + tm_year t) @ fmt_0d 2 (tm_mon t + 1) @ fmt_0d 2 (tm_mday t)
       @ ''T'' @ fmt_0d 2 (tm_hour t) @ fmt_0d 2 (tm_min t) @ fmt_0d 2 (tm_sec t)"

text \<open>Lines 149 to 166.\<close>

definition open_log :: "build \<Rightarrow> tm \<Rightarrow> int \<Rightarrow> log_stream" where
  "open_log bld t rank =
     (if 0 = rank then Shares_cout
      else if HPCG_DEBUG bld \<or> HPCG_DETAILED_DEBUG bld
           then Opened (timestamp t @ ''_'' @ fmt_d rank @ ''.txt'')
           else Opened (NULLDEVICE bld))"

record init_result =
  status :: int
  params :: HPCG_Params
  HPCG_fout :: log_stream
  calls :: "io_event list"

text \<open>
  The whole routine, for one process of a run. All processes of the run are started
  with the same argument vector; \<open>files r\<close> is what the file reader finds on the
  process of rank \<open>r\<close>, and a program built without MPI runs as the single process 0.
  The buffer that the root sends in the broadcast is the one the root has computed by
  the same lines 78 to 111 from its own file. Besides the returned status, the filled
  parameter record and the log stream, the result lists the calls of the file reader
  and of the broadcast that the process has made, in their order.
\<close>

definition HPCG_Init :: "build \<Rightarrow> string list \<Rightarrow> (int \<Rightarrow> hpcg_dat) \<Rightarrow> exec_env \<Rightarrow> init_result" where
  "HPCG_Init bld argv files env =
     (let self = (if HPCG_NO_MPI bld then 0 else mpi_rank env);
          (iparams, broadcastParams) = local_iparams argv (files self);
          bcast = (\<not> HPCG_NO_MPI bld \<and> broadcastParams);
          iparams = (if bcast
                     then MPI_Bcast (fst (local_iparams argv (files 0))) self iparams nparams 0
                     else iparams);
          rank = (if HPCG_NO_MPI bld then 0 else mpi_rank env);
          size = (if HPCG_NO_MPI bld then 1 else mpi_size env);
          threads = (if HPCG_NO_OPENMP bld then 1 else omp_threads env)
      in \<lparr> status = 0,
           params = \<lparr> comm_size = size, comm_rank = rank, numThreads = threads,
                      nx = iparams ! 0, ny = iparams ! 1, nz = iparams ! 2,
                      runningTime = iparams ! 3,
                      npx = iparams ! 7, npy = iparams ! 8, npz = iparams ! 9,
                      pz = iparams ! 4, zl = iparams ! 5, zu = iparams ! 6 \<rparr>,
           HPCG_fout = open_log bld (localtime env) rank,
           calls = (if broadcastParams then [Call_ReadHpcgDat] else [])
                   @ (if bcast then [Call_MPI_Bcast] else []) \<rparr>)"

text \<open>The ten resolved fields, in the order of the parameter array.\<close>

definition resolved :: "HPCG_Params \<Rightarrow> int list" where
  "resolved p = [nx p, ny p, nz p, runningTime p, pz p, zl p, zu p, npx p, npy p, npz p]"

subsection \<open>Auxiliary notions and sample runs\<close>

text \<open>
  The integer that an argument \<open>a\<close> starting with the prefix number \<open>j\<close> leaves in slot
  \<open>j\<close>: the integer that \<open>sscanf\<close> reads after the prefix, or 0 if it reads none.
\<close>

definition flag_value :: "string \<Rightarrow> nat \<Rightarrow> int" where
  "flag_value a j =
     (case sscanf_d (drop (strlen (cparams ! j)) a) of None \<Rightarrow> 0 | Some v \<Rightarrow> v)"

text \<open>A build with MPI and OpenMP, and a build with \<open>HPCG_NO_MPI\<close> defined.\<close>

definition mpi_build :: build where
  "mpi_build = \<lparr> HPCG_NO_MPI = False, HPCG_NO_OPENMP = False, HPCG_DEBUG = False,
                 HPCG_DETAILED_DEBUG = False, WIN32 = False \<rparr>"

definition serial_build :: build where
  "serial_build = \<lparr> HPCG_NO_MPI = True, HPCG_NO_OPENMP = False, HPCG_DEBUG = False,
                    HPCG_DETAILED_DEBUG = False, WIN32 = False \<rparr>"

text \<open>A file that gives the dimensions 32, 32, 32, the runtime 60 and the grid 1, 1, 1.\<close>

definition sample_dat :: hpcg_dat where
  "sample_dat = \<lparr> dat_nx = Some 32, dat_ny = Some 32, dat_nz = Some 32, dat_rt = Some 60,
                  dat_npx = Some 1, dat_npy = Some 1, dat_npz = Some 1 \<rparr>"

text \<open>The process of rank \<open>r\<close> among four, with two threads, at some moment.\<close>

definition sample_env :: "int \<Rightarrow> exec_env" where
  "sample_env r = \<lparr> mpi_rank = r, mpi_size = 4, omp_threads = 2,
                    localtime = \<lparr> tm_year = 126, tm_mon = 9, tm_mday = 30,
                                  tm_hour = 14, tm_min = 2, tm_sec = 0 \<rparr> \<rparr>"

text \<open>The same file on every process.\<close>

definition sample_files :: "int \<Rightarrow> hpcg_dat" where
  "sample_files r = sample_dat"

section \<open>Properties\<close>

subsection \<open>The repair of the dimensions\<close>

lemma nparams_10: "nparams = 10"
  by (simp add: nparams_def cparams_def)

lemma length_raise_to_sibling: "length (raise_to_sibling i j v) = length v"
  by (simp add: raise_to_sibling_def)

lemma length_normalize_dim: "length (normalize_dim i v) = length v"
  by (simp add: normalize_dim_def Let_def length_raise_to_sibling)

lemma normalize_geometry_unfold:
  "normalize_geometry v = normalize_dim 2 (normalize_dim 1 (normalize_dim 0 v))"
  by (simp add: normalize_geometry_def numeral_3_eq_3 numeral_2_eq_2)

lemma length_normalize_geometry: "length (normalize_geometry v) = length v"
  by (simp add: normalize_geometry_unfold length_normalize_dim)

text \<open>
  The code raises a small dimension to the largest of itself and its two siblings, the
  specification to the larger sibling; after the clamp to 16 both leave the same array.
\<close>

lemma normalize_dim_refines:
  assumes "i < 3" and "3 \<le> length v"
  shows "normalize_dim i v = spec_fill_dim i v"
proof -
  from assms(2) have len: "0 < length v" "Suc 0 < length v" "Suc (Suc 0) < length v" "2 < length v"
    by linarith+
  from assms(1) consider "i = 0" | "i = 1" | "i = 2" by linarith
  then show ?thesis
  proof cases
    case 1
    with len show ?thesis
      by (auto simp: normalize_dim_def spec_fill_dim_def raise_to_sibling_def Let_def max_def)
  next
    case 2
    with len show ?thesis
      by (auto simp: normalize_dim_def spec_fill_dim_def raise_to_sibling_def Let_def max_def)
  next
    case 3
    with len show ?thesis
      by (auto simp: normalize_dim_def spec_fill_dim_def raise_to_sibling_def Let_def max_def)
  qed
qed

lemma length_spec_fill_dim: "length (spec_fill_dim i v) = length v"
  by (simp add: spec_fill_dim_def Let_def)

lemma normalize_geometry_refines:
  assumes "3 \<le> length v"
  shows "normalize_geometry v = spec_normalize v"
  using assms
  by (simp add: normalize_geometry_unfold spec_normalize_def normalize_dim_refines
      length_spec_fill_dim)

lemma spec_fill_dim_floor:
  assumes "i < length v"
  shows "16 \<le> spec_fill_dim i v ! i"
  using assms by (simp add: spec_fill_dim_def Let_def max_def)

lemma spec_fill_dim_other:
  assumes "k \<noteq> i"
  shows "spec_fill_dim i v ! k = v ! k"
  using assms by (simp add: spec_fill_dim_def Let_def)

lemma spec_normalize_floor:
  assumes "3 \<le> length v"
  shows "16 \<le> spec_normalize v ! 0 \<and> 16 \<le> spec_normalize v ! 1 \<and> 16 \<le> spec_normalize v ! 2"
proof -
  from assms have len: "0 < length v" "1 < length v" "2 < length v"
    by linarith+
  have "16 \<le> spec_fill_dim 0 v ! 0"
    using len(1) by (rule spec_fill_dim_floor)
  moreover have "16 \<le> spec_fill_dim 1 (spec_fill_dim 0 v) ! 1"
    using len(2) by (intro spec_fill_dim_floor) (simp add: length_spec_fill_dim)
  moreover have "16 \<le> spec_fill_dim 2 (spec_fill_dim 1 (spec_fill_dim 0 v)) ! 2"
    using len(3) by (intro spec_fill_dim_floor) (simp add: length_spec_fill_dim)
  ultimately show ?thesis
    by (simp add: spec_normalize_def spec_fill_dim_other)
qed

lemma geometry_floor:
  assumes "3 \<le> length v"
  shows "16 \<le> normalize_geometry v ! 0 \<and> 16 \<le> normalize_geometry v ! 1
         \<and> 16 \<le> normalize_geometry v ! 2"
  using assms spec_normalize_floor [of v] by (simp add: normalize_geometry_refines)

lemma drop_normalize_dim:
  assumes "i < 3"
  shows "drop 3 (normalize_dim i v) = drop 3 v"
  using assms by (simp add: normalize_dim_def raise_to_sibling_def Let_def)

lemma drop_normalize_geometry: "drop 3 (normalize_geometry v) = drop 3 v"
  by (simp add: normalize_geometry_unfold drop_normalize_dim)

text \<open>
  C1. On every parameter array the repair pass of the code is the rule of the
  specification: the dimensions 0, 1, 2 are treated in this order, each on the array as
  the earlier ones left it; a dimension below 16 becomes the maximum of the other two,
  or 16 if that maximum is below 16. Afterwards each of the three dimensions is at
  least 16.
\<close>

theorem normalizer_rule:
  assumes "length v = nparams"
  shows "normalize_geometry v = spec_normalize v
         \<and> 16 \<le> normalize_geometry v ! 0
         \<and> 16 \<le> normalize_geometry v ! 1
         \<and> 16 \<le> normalize_geometry v ! 2"
proof -
  from assms have "3 \<le> length v" by (simp add: nparams_10)
  then show ?thesis
    using normalize_geometry_refines [of v] geometry_floor [of v] by simp
qed

theorem normalizer_rule_witness:
  "length [8, 64, 8, 0, 0, 0, 0, 0, 0, 0 :: int] = nparams
   \<and> normalize_geometry [8, 64, 8, 0, 0, 0, 0, 0, 0, 0]
       = spec_normalize [8, 64, 8, 0, 0, 0, 0, 0, 0, 0]
   \<and> normalize_geometry [8, 64, 8, 0, 0, 0, 0, 0, 0, 0] = [64, 64, 64, 0, 0, 0, 0, 0, 0, 0]"
proof -
  have len: "length [8, 64, 8, 0, 0, 0, 0, 0, 0, 0 :: int] = nparams"
    by (simp add: nparams_10)
  have "spec_normalize [8, 64, 8, 0, 0, 0, 0, 0, 0, 0] = [64, 64, 64, 0, 0, 0, 0, 0, 0, 0]"
    by (simp add: spec_normalize_def spec_fill_dim_def)
  with len normalizer_rule [OF len] show ?thesis by simp
qed

text \<open>
  C9. The repair pass writes to the slots 0, 1 and 2 only: the slots from 3 on
  (runningTime, pz, zl, zu, npx, npy, npz) keep their values, and the array keeps its
  length.
\<close>

theorem normalizer_frame:
  "drop 3 (normalize_geometry v) = drop 3 v \<and> length (normalize_geometry v) = length v"
  by (simp add: drop_normalize_geometry length_normalize_geometry)

subsection \<open>The command line\<close>

text \<open>
  What \<open>sscanf\<close> stores is a value of \<open>int\<close>; a numeral within the range of \<open>int\<close> is
  stored as it is, and one beyond it is not.
\<close>

lemma to_int32_range: "- (2 ^ 31) \<le> to_int32 n \<and> to_int32 n < 2 ^ 31"
proof -
  have "0 \<le> (n + 2 ^ 31) mod (2 ^ 32 :: int)" and "(n + 2 ^ 31) mod (2 ^ 32 :: int) < 2 ^ 32"
    by simp_all
  then show ?thesis by (simp add: to_int32_def)
qed

lemma to_int32_fits:
  assumes "- (2 ^ 31) \<le> n" and "n < 2 ^ 31"
  shows "to_int32 (strtol_long n) = n"
proof -
  from assms have l: "strtol_long n = n"
    by (simp add: strtol_long_def)
  from assms have "0 \<le> n + 2 ^ 31" and "n + 2 ^ 31 < 2 ^ 32"
    by simp_all
  then have "(n + 2 ^ 31) mod 2 ^ 32 = n + 2 ^ 31"
    by (rule mod_pos_pos_trivial)
  with l show ?thesis by (simp add: to_int32_def)
qed

lemma sscanf_d_range:
  assumes "sscanf_d s = Some v"
  shows "- (2 ^ 31) \<le> v \<and> v < 2 ^ 31"
  using assms to_int32_range
  by (auto simp: sscanf_d_def Let_def split: if_splits)

lemma sscanf_d_beyond_int:
  "sscanf_d ''2147483647'' = Some 2147483647
   \<and> sscanf_d ''2147483648'' = Some (- 2147483648)
   \<and> sscanf_d ''4294967296'' = Some 0
   \<and> sscanf_d ''99999999999'' = Some 1215752191
   \<and> sscanf_d ''-2147483649'' = Some 2147483647
   \<and> sscanf_d ''99999999999999999999'' = Some (- 1)"
  by code_simp

lemma length_prefixed_arg: "length (prefixed_arg a j v) = length v"
  by (simp add: prefixed_arg_def split: option.splits)

lemma prefixed_arg_nth:
  assumes "j < length v"
  shows "prefixed_arg a k v ! j =
         (if k = j \<and> startswith a (cparams ! j) then flag_value a j else v ! j)"
proof (cases "k = j")
  case True
  with assms show ?thesis
    by (simp add: prefixed_arg_def flag_value_def split: option.splits)
next
  case False
  then show ?thesis
    by (simp add: prefixed_arg_def split: option.splits)
qed

lemma fold_prefixed_arg_length: "length (fold (prefixed_arg a) ks v) = length v"
  by (induction ks arbitrary: v) (simp_all add: length_prefixed_arg)

lemma fold_prefixed_arg_nth:
  assumes "j < length v" and "distinct ks"
  shows "fold (prefixed_arg a) ks v ! j =
         (if j \<in> set ks \<and> startswith a (cparams ! j) then flag_value a j else v ! j)"
  using assms
proof (induction ks arbitrary: v)
  case Nil
  then show ?case by simp
next
  case (Cons k ks)
  from Cons.prems have "j < length (prefixed_arg a k v)"
    by (simp add: length_prefixed_arg)
  with Cons show ?case
    by (auto simp: prefixed_arg_nth)
qed

lemma length_scan_arg: "length (scan_arg a v) = length v"
  by (simp add: scan_arg_def fold_prefixed_arg_length)

lemma scan_arg_nth:
  assumes "j < nparams" and "length v = nparams"
  shows "scan_arg a v ! j = (if startswith a (cparams ! j) then flag_value a j else v ! j)"
  using assms by (simp add: scan_arg_def fold_prefixed_arg_nth)

lemma fold_scan_arg_length: "length (fold scan_arg as v) = length v"
  by (induction as arbitrary: v) (simp_all add: length_scan_arg)

lemma fold_scan_arg_unmatched:
  assumes "j < nparams" and "length v = nparams"
    and "list_all (\<lambda>b. \<not> startswith b (cparams ! j)) bs"
  shows "fold scan_arg bs v ! j = v ! j"
  using assms
  by (induction bs arbitrary: v) (simp_all add: scan_arg_nth length_scan_arg)

lemma fold_scan_arg_last:
  assumes "j < nparams" and "length v = nparams"
    and "startswith a (cparams ! j)"
    and "list_all (\<lambda>b. \<not> startswith b (cparams ! j)) bs"
  shows "fold scan_arg (as @ a # bs) v ! j = flag_value a j"
proof -
  have len: "length (scan_arg a (fold scan_arg as v)) = nparams"
    using assms(2) by (simp add: length_scan_arg fold_scan_arg_length)
  have "fold scan_arg (as @ a # bs) v = fold scan_arg bs (scan_arg a (fold scan_arg as v))"
    by simp
  also have "\<dots> ! j = scan_arg a (fold scan_arg as v) ! j"
    using assms(1) len assms(4) by (rule fold_scan_arg_unmatched)
  also have "\<dots> = flag_value a j"
    using assms by (simp add: scan_arg_nth fold_scan_arg_length)
  finally show ?thesis .
qed

lemma prefixed_arg_unknown:
  assumes "\<not> startswith u (cparams ! k)"
  shows "prefixed_arg u k v = v"
  using assms by (simp add: prefixed_arg_def)

lemma scan_arg_unknown:
  assumes "list_all (\<lambda>p. \<not> startswith u p) cparams"
  shows "scan_arg u v = v"
proof -
  have "\<And>w. \<forall>k \<in> set ks. k < nparams \<Longrightarrow> fold (prefixed_arg u) ks w = w" for ks
  proof (induction ks)
    case Nil
    show ?case by simp
  next
    case (Cons k ks)
    from Cons.prems have "k < length cparams" by (simp add: nparams_def)
    with assms have "\<not> startswith u (cparams ! k)"
      by (simp add: list_all_length)
    with Cons show ?case by (simp add: prefixed_arg_unknown)
  qed
  then show ?thesis by (simp add: scan_arg_def)
qed

lemma length_positional_arg: "length (positional_arg argv i v) = length v"
  by (simp add: positional_arg_def Let_def split: option.splits)

lemma length_positional_args: "length (positional_args argv v) = length v"
proof -
  have "length (fold (positional_arg argv) ks w) = length w" for ks w
    by (induction ks arbitrary: w) (simp_all add: length_positional_arg)
  then show ?thesis by (simp add: positional_args_def)
qed

lemma length_cmdline_iparams: "length (cmdline_iparams argv) = nparams"
  by (simp add: cmdline_iparams_def prefixed_args_def fold_scan_arg_length length_positional_args)

lemma cmdline_last_flag:
  assumes "j < nparams"
    and "startswith a (cparams ! j)"
    and "list_all (\<lambda>b. \<not> startswith b (cparams ! j)) bs"
  shows "cmdline_iparams (prog # as @ a # bs) ! j = flag_value a j"
  using assms
  by (simp add: cmdline_iparams_def prefixed_args_def fold_scan_arg_last length_positional_args
      del: fold_append)

text \<open>
  C6. For each of the ten prefixes \<open>cparams ! j\<close>, scanning one argument stores in slot
  \<open>j\<close> the integer read after the prefix when the argument starts with that prefix (0
  when no integer can be read) and leaves the slot alone otherwise. After the whole
  command line has been parsed, slot \<open>j\<close> holds the value given by the last argument
  that starts with the prefix. An argument that starts with none of the prefixes leaves
  the array as it is.
\<close>

theorem prefix_flags:
  assumes "j < nparams" and "length v = nparams"
  shows "scan_arg a v ! j
           = (if startswith a (cparams ! j)
              then (case sscanf_d (drop (strlen (cparams ! j)) a) of None \<Rightarrow> 0 | Some n \<Rightarrow> n)
              else v ! j)
         \<and> (startswith a (cparams ! j) \<and> list_all (\<lambda>b. \<not> startswith b (cparams ! j)) bs
              \<longrightarrow> cmdline_iparams (prog # as @ a # bs) ! j
                    = (case sscanf_d (drop (strlen (cparams ! j)) a) of
                         None \<Rightarrow> 0 | Some n \<Rightarrow> n))
         \<and> (list_all (\<lambda>p. \<not> startswith u p) cparams \<longrightarrow> scan_arg u v = v)"
  using assms
  by (simp add: scan_arg_nth cmdline_last_flag scan_arg_unknown flag_value_def)

theorem prefix_flags_witness:
  "(3::nat) < nparams \<and> length (replicate 10 (0::int)) = nparams
   \<and> startswith ''--rt=30'' (cparams ! 3)
   \<and> list_all (\<lambda>b. \<not> startswith b (cparams ! 3)) [''--nx=16'', ''extra'']
   \<and> list_all (\<lambda>p. \<not> startswith ''extra'' p) cparams
   \<and> cmdline_iparams [''xhpcg'', ''--rt=7'', ''--rt=abc'', ''--rt=30'', ''--nx=16'', ''extra''] ! 3
       = 30
   \<and> scan_arg ''extra'' (replicate 10 0) = replicate 10 0"
proof -
  have h1: "(3::nat) < nparams" by (simp add: nparams_10)
  have h2: "length (replicate 10 (0::int)) = nparams" by (simp add: nparams_10)
  have h3: "startswith ''--rt=30'' (cparams ! 3)"
    by (simp add: startswith_def strlen_def cparams_def)
  have h4: "list_all (\<lambda>b. \<not> startswith b (cparams ! 3)) [''--nx=16'', ''extra'']"
    by (simp add: startswith_def strlen_def cparams_def)
  have h5: "list_all (\<lambda>p. \<not> startswith ''extra'' p) cparams"
    by (simp add: startswith_def strlen_def cparams_def)
  have v: "sscanf_d (drop (strlen (cparams ! 3)) ''--rt=30'') = Some 30"
    by code_simp
  from prefix_flags [OF h1 h2, of "''--rt=30''" "[''--nx=16'', ''extra'']" "''xhpcg''"
      "[''--rt=7'', ''--rt=abc'']" "''extra''"] h1 h2 h3 h4 h5 v
  show ?thesis by simp
qed

subsection \<open>File defaults and the local part of the routine\<close>

lemma length_store_opt: "length (store_opt k x mem) = length mem"
  by (simp add: store_opt_def split: option.splits)

lemma store_opt_nth_other:
  assumes "k \<noteq> i"
  shows "store_opt i x mem ! k = mem ! k"
  using assms by (simp add: store_opt_def split: option.splits)

lemma length_ReadHpcgDat: "length (ReadHpcgDat f d s p mem) = length mem"
  by (simp add: ReadHpcgDat_def Let_def length_store_opt split: option.splits)

lemma ReadHpcgDat_rt_null: "ReadHpcgDat f 0 None 7 mem ! 3 = mem ! 3"
  by (simp add: ReadHpcgDat_def Let_def store_opt_nth_other)

lemma ReadHpcgDat_rt_slot:
  assumes "3 < length mem"
  shows "ReadHpcgDat f 0 (Some 3) 7 mem ! 3 = (case dat_rt f of None \<Rightarrow> mem ! 3 | Some t \<Rightarrow> t)"
  using assms
  by (simp add: ReadHpcgDat_def Let_def store_opt_nth_other length_store_opt)
     (simp add: store_opt_def length_store_opt split: option.splits)

lemma length_file_defaults: "length (fst (file_defaults f v)) = length v"
  by (simp add: file_defaults_def Let_def length_ReadHpcgDat)

lemma snd_file_defaults: "snd (file_defaults f v) = no_geometry v"
  by (simp add: file_defaults_def Let_def)

lemma file_defaults_geometry:
  assumes "\<not> no_geometry v"
  shows "fst (file_defaults f v) = v"
  using assms by (simp add: file_defaults_def Let_def)

lemma runtime_kept:
  assumes "v ! 3 \<noteq> 0"
  shows "fst (file_defaults f v) ! 3 = v ! 3"
  using assms by (simp add: file_defaults_def Let_def rt_pointer_def ReadHpcgDat_rt_null)

lemma runtime_loaded:
  assumes "v ! 3 = 0" and "no_geometry v" and "length v = nparams"
  shows "fst (file_defaults f v) ! 3 = (case dat_rt f of None \<Rightarrow> 0 | Some t \<Rightarrow> t)"
  using assms
  by (simp add: file_defaults_def Let_def rt_pointer_def ReadHpcgDat_rt_slot nparams_10
      split: option.splits)

lemma normalize_dim_nth_other:
  assumes "k \<noteq> i"
  shows "normalize_dim i v ! k = v ! k"
  using assms by (simp add: normalize_dim_def raise_to_sibling_def Let_def)

lemma normalize_geometry_nth_other:
  assumes "3 \<le> k"
  shows "normalize_geometry v ! k = v ! k"
  using assms by (simp add: normalize_geometry_unfold normalize_dim_nth_other)

lemma fst_local_iparams:
  "fst (local_iparams argv f) = normalize_geometry (fst (file_defaults f (cmdline_iparams argv)))"
  by (simp add: local_iparams_def split_def Let_def)

lemma snd_local_iparams: "snd (local_iparams argv f) = no_geometry (cmdline_iparams argv)"
  by (simp add: local_iparams_def split_def Let_def snd_file_defaults)

lemma length_local_iparams: "length (fst (local_iparams argv f)) = nparams"
  by (simp add: fst_local_iparams length_normalize_geometry length_file_defaults
      length_cmdline_iparams)

text \<open>With geometry on the command line the file plays no part.\<close>

lemma local_iparams_geometry:
  assumes "\<not> no_geometry (cmdline_iparams argv)"
  shows "fst (local_iparams argv f) = fst (local_iparams argv g)"
  using assms by (simp add: fst_local_iparams file_defaults_geometry)

subsection \<open>The whole routine\<close>

lemma MPI_Bcast_whole:
  assumes "length sent = n" and "length buffer = n"
  shows "MPI_Bcast sent self buffer n 0 = (if self = 0 then buffer else sent)"
  using assms by (simp add: MPI_Bcast_def)

text \<open>
  The array from which the fields are copied is, on every process and in every build,
  the array that rank 0 computes: either the broadcast delivers it, or the process is
  rank 0, or the file has not been consulted.
\<close>

lemma final_iparams:
  "(let self = (if HPCG_NO_MPI bld then 0 else mpi_rank env);
        own = local_iparams argv (files self)
    in if \<not> HPCG_NO_MPI bld \<and> snd own
       then MPI_Bcast (fst (local_iparams argv (files 0))) self (fst own) nparams 0
       else fst own)
   = fst (local_iparams argv (files 0))"
proof (cases "no_geometry (cmdline_iparams argv)")
  case True
  then show ?thesis
    by (simp add: Let_def snd_local_iparams MPI_Bcast_whole length_local_iparams)
next
  case False
  then show ?thesis
    using local_iparams_geometry [OF False]
    by (simp add: Let_def snd_local_iparams)
qed

lemma params_HPCG_Init:
  "params (HPCG_Init bld argv files env) =
     (let iparams = fst (local_iparams argv (files 0))
      in \<lparr> comm_size = (if HPCG_NO_MPI bld then 1 else mpi_size env),
           comm_rank = (if HPCG_NO_MPI bld then 0 else mpi_rank env),
           numThreads = (if HPCG_NO_OPENMP bld then 1 else omp_threads env),
           nx = iparams ! 0, ny = iparams ! 1, nz = iparams ! 2,
           runningTime = iparams ! 3,
           npx = iparams ! 7, npy = iparams ! 8, npz = iparams ! 9,
           pz = iparams ! 4, zl = iparams ! 5, zu = iparams ! 6 \<rparr>)"
  using final_iparams [of bld env argv files]
  by (simp add: HPCG_Init_def Let_def split_def)

lemma calls_HPCG_Init:
  "calls (HPCG_Init bld argv files env) =
     (if no_geometry (cmdline_iparams argv) then [Call_ReadHpcgDat] else [])
     @ (if \<not> HPCG_NO_MPI bld \<and> no_geometry (cmdline_iparams argv)
        then [Call_MPI_Bcast] else [])"
  by (simp add: HPCG_Init_def Let_def split_def snd_local_iparams)

lemma resolved_HPCG_Init:
  "resolved (params (HPCG_Init bld argv files env)) =
     (let iparams = fst (local_iparams argv (files 0))
      in [iparams ! 0, iparams ! 1, iparams ! 2, iparams ! 3, iparams ! 4,
          iparams ! 5, iparams ! 6, iparams ! 7, iparams ! 8, iparams ! 9])"
  by (simp add: resolved_def params_HPCG_Init Let_def)

lemma runningTime_HPCG_Init:
  "runningTime (params (HPCG_Init bld argv files env))
   = fst (file_defaults (files 0) (cmdline_iparams argv)) ! 3"
  by (simp add: params_HPCG_Init Let_def fst_local_iparams normalize_geometry_nth_other)

text \<open>
  Runs with numerals beyond the range of \<open>int\<close>: \<open>--rt=4294967296\<close> stores 0, so that
  the running time comes from the file; \<open>--nx=4294967296\<close> stores 0, so that the file is
  read and the array broadcast; \<open>--npx=99999999999\<close> stores 1215752191; and
  \<open>--rt=2147483648\<close> resolves to the running time -2147483648.
\<close>

lemma HPCG_Init_beyond_int:
  "runningTime (params (HPCG_Init mpi_build [''xhpcg'', ''--rt=4294967296''] sample_files
                          (sample_env 0))) = 60
   \<and> calls (HPCG_Init mpi_build [''xhpcg'', ''--nx=4294967296''] sample_files (sample_env 0))
       = [Call_ReadHpcgDat, Call_MPI_Bcast]
   \<and> cmdline_iparams [''xhpcg'', ''--npx=99999999999''] ! 7 = 1215752191
   \<and> runningTime (params (HPCG_Init mpi_build [''xhpcg'', ''--nx=16'', ''--rt=2147483648'']
                          sample_files (sample_env 0))) = - 2147483648"
  by code_simp

text \<open>
  C2. The file reader is called exactly when the slots 0, 1 and 2 are all 0 after the
  command line has been parsed. The broadcast is called exactly when the program is
  built with MPI and the file reader has been called; a program built with
  \<open>HPCG_NO_MPI\<close> never broadcasts.
\<close>

theorem loader_and_broadcast:
  "(Call_ReadHpcgDat \<in> set (calls (HPCG_Init bld argv files env)))
     = (cmdline_iparams argv ! 0 = 0 \<and> cmdline_iparams argv ! 1 = 0
        \<and> cmdline_iparams argv ! 2 = 0)
   \<and> (Call_MPI_Bcast \<in> set (calls (HPCG_Init bld argv files env)))
     = (\<not> HPCG_NO_MPI bld \<and> Call_ReadHpcgDat \<in> set (calls (HPCG_Init bld argv files env)))"
  by (simp add: calls_HPCG_Init no_geometry_def)

text \<open>
  Built without MPI and started without arguments, the routine reads the file and does
  not broadcast.
\<close>

theorem broadcast_iff_loader_counterexample:
  "Call_ReadHpcgDat \<in> set (calls (HPCG_Init serial_build [''xhpcg''] sample_files (sample_env 0)))
   \<and> Call_MPI_Bcast \<notin> set (calls (HPCG_Init serial_build [''xhpcg''] sample_files (sample_env 0)))"
  by code_simp

text \<open>
  C3. The file is to be read by rank 0 only. The routine calls the file reader before
  it knows its rank: the process of rank 1, started without arguments, calls it.
\<close>

theorem rank1_reads_file:
  "comm_rank (params (HPCG_Init mpi_build [''xhpcg''] sample_files (sample_env 1))) = 1
   \<and> Call_ReadHpcgDat \<in> set (calls (HPCG_Init mpi_build [''xhpcg''] sample_files (sample_env 1)))"
  by code_simp

text \<open>
  C4. Only the first three positional arguments are to be read. The first loop runs
  over all ten slots: a fourth positional argument of at least 10 becomes the running
  time, which is 0 without it.
\<close>

theorem fourth_positional_sets_runtime:
  "runningTime (params (HPCG_Init mpi_build [''xhpcg'', ''32'', ''32'', ''32'', ''60'']
                          sample_files (sample_env 0))) = 60
   \<and> runningTime (params (HPCG_Init mpi_build [''xhpcg'', ''32'', ''32'', ''32'']
                          sample_files (sample_env 0))) = 0"
  by code_simp

text \<open>
  C5. If the last argument that starts with \<open>--rt=\<close> gives an integer other than 0,
  the resolved running time is that integer, whatever the file holds. If the runtime
  slot is 0 after the command line has been parsed and the command line gives no
  geometry, the resolved running time is the value that the file reader of rank 0
  delivers, and 0 if it delivers none.
\<close>

theorem runtime_precedence:
  "(startswith a (cparams ! 3) \<and> list_all (\<lambda>b. \<not> startswith b (cparams ! 3)) bs
       \<and> flag_value a 3 \<noteq> 0
      \<longrightarrow> runningTime (params (HPCG_Init bld (prog # as @ a # bs) files env)) = flag_value a 3)
   \<and> (cmdline_iparams argv ! 3 = 0 \<and> no_geometry (cmdline_iparams argv)
      \<longrightarrow> runningTime (params (HPCG_Init bld argv files env))
            = (case dat_rt (files 0) of None \<Rightarrow> 0 | Some t \<Rightarrow> t))"
  by (simp add: runningTime_HPCG_Init runtime_kept runtime_loaded length_cmdline_iparams
      cmdline_last_flag nparams_10)

theorem runtime_precedence_witness:
  "startswith ''--rt=30'' (cparams ! 3)
   \<and> list_all (\<lambda>b. \<not> startswith b (cparams ! 3)) [''--npx=2'']
   \<and> flag_value ''--rt=30'' 3 \<noteq> 0
   \<and> runningTime (params (HPCG_Init mpi_build [''xhpcg'', ''--rt=7'', ''--rt=30'', ''--npx=2'']
                          sample_files (sample_env 1))) = 30
   \<and> cmdline_iparams [''xhpcg''] ! 3 = 0 \<and> no_geometry (cmdline_iparams [''xhpcg''])
   \<and> runningTime (params (HPCG_Init mpi_build [''xhpcg''] sample_files (sample_env 1))) = 60"
proof -
  have b: "cmdline_iparams [''xhpcg''] = [0, 0, 0, 0, 0, 0, 0, 0, 0, 0]"
    by code_simp
  have c: "startswith ''--rt=30'' (cparams ! 3)"
    by code_simp
  have d: "flag_value ''--rt=30'' 3 = 30"
    by code_simp
  have e: "list_all (\<lambda>b. \<not> startswith b (cparams ! 3)) [''--npx=2'']"
    by code_simp
  from b c d e
    runtime_precedence [of "''--rt=30''" "[''--npx=2'']" mpi_build "''xhpcg''" "[''--rt=7'']"
      sample_files "sample_env 1" "[''xhpcg'']"]
  show ?thesis by (simp add: no_geometry_def sample_files_def sample_dat_def)
qed

text \<open>
  The argument \<open>--rt=0\<close> gives the running time 0 on the command line, and the resolved
  running time is the 60 of the file.
\<close>

theorem runtime_zero_flag_counterexample:
  "startswith ''--rt=0'' (cparams ! 3)
   \<and> flag_value ''--rt=0'' 3 = 0
   \<and> runningTime (params (HPCG_Init mpi_build [''xhpcg'', ''--rt=0''] sample_files (sample_env 0)))
       = 60"
  by code_simp

text \<open>
  C7. The ten resolved fields depend on the argument vector and on the files only:
  two runs with the same arguments and the same files resolve the same values, whatever
  the rank, the number of processes, the number of threads, the time and the build of
  each run.
\<close>

theorem resolution_deterministic:
  "resolved (params (HPCG_Init bld1 argv files env1))
   = resolved (params (HPCG_Init bld2 argv files env2))"
  by (simp add: resolved_HPCG_Init)

text \<open>
  C8. The routine returns the status 0 for every argument vector, every file, every
  rank and every build.
\<close>

theorem init_returns_zero: "status (HPCG_Init bld argv files env) = 0"
  by (simp add: HPCG_Init_def Let_def split_def)

text \<open>
  C10. Each of the seven fields runningTime, pz, zl, zu, npx, npy, npz is the value its
  slot holds after the last parsing stage (the command line, then the file when it is
  consulted) on rank 0; nothing is checked or changed on the way. Negative values given
  with prefix flags arrive in the fields as they are.
\<close>

theorem non_geometry_passthrough:
  "runningTime (params (HPCG_Init bld argv files env))
     = fst (file_defaults (files 0) (cmdline_iparams argv)) ! 3
   \<and> pz (params (HPCG_Init bld argv files env))
     = fst (file_defaults (files 0) (cmdline_iparams argv)) ! 4
   \<and> zl (params (HPCG_Init bld argv files env))
     = fst (file_defaults (files 0) (cmdline_iparams argv)) ! 5
   \<and> zu (params (HPCG_Init bld argv files env))
     = fst (file_defaults (files 0) (cmdline_iparams argv)) ! 6
   \<and> npx (params (HPCG_Init bld argv files env))
     = fst (file_defaults (files 0) (cmdline_iparams argv)) ! 7
   \<and> npy (params (HPCG_Init bld argv files env))
     = fst (file_defaults (files 0) (cmdline_iparams argv)) ! 8
   \<and> npz (params (HPCG_Init bld argv files env))
     = fst (file_defaults (files 0) (cmdline_iparams argv)) ! 9
   \<and> resolved (params (HPCG_Init bld
         [''xhpcg'', ''--nx=16'', ''--rt=-5'', ''--pz=-1'', ''--zl=-2'', ''--zu=-3'',
          ''--npx=-4'', ''--npy=-6'', ''--npz=-7''] files env))
       = [16, 16, 16, -5, -1, -2, -3, -4, -6, -7]"
proof -
  have c: "cmdline_iparams
             [''xhpcg'', ''--nx=16'', ''--rt=-5'', ''--pz=-1'', ''--zl=-2'', ''--zu=-3'',
              ''--npx=-4'', ''--npy=-6'', ''--npz=-7'']
           = [16, 0, 0, -5, -1, -2, -3, -4, -6, -7]"
    by code_simp
  have n: "normalize_geometry [16, 0, 0, -5, -1, -2, -3, -4, -6, -7]
           = [16, 16, 16, -5, -1, -2, -3, -4, -6, -7]"
    by code_simp
  have e: "resolved (params (HPCG_Init bld
             [''xhpcg'', ''--nx=16'', ''--rt=-5'', ''--pz=-1'', ''--zl=-2'', ''--zu=-3'',
              ''--npx=-4'', ''--npy=-6'', ''--npz=-7''] files env))
           = [16, 16, 16, -5, -1, -2, -3, -4, -6, -7]"
    by (simp add: resolved_HPCG_Init Let_def fst_local_iparams c n file_defaults_def
        no_geometry_def)
  show ?thesis
    unfolding e
    by (simp add: params_HPCG_Init Let_def fst_local_iparams normalize_geometry_nth_other)
qed

end
